theory Spec2Isabelle
  imports Main "HOL-Library.AList"
begin

section \<open>Python values and dictionaries\<close>

text \<open>
  The values that travel through the push-message builders are the ones
  \<^verbatim>\<open>json.dumps\<close> accepts: \<^verbatim>\<open>None\<close>, booleans, integers, strings, lists and
  dictionaries with string keys. A dictionary is an association list in insertion
  order, as a Python \<^verbatim>\<open>dict\<close> is; a well-formed one has pairwise distinct keys.
\<close>

datatype json =
    JNull
  | JBool bool
  | JInt int
  | JStr string
  | JList "json list"
  | JObj "(string \<times> json) list"

type_synonym dict = "(string \<times> json) list"

text \<open>
  \<^verbatim>\<open>d[k] = v\<close> is \<^const>\<open>AList.update\<close>: an existing key keeps its place and takes the
  new value, a new key goes to the end. \<^verbatim>\<open>d.update(other)\<close> and the unpacking
  \<^verbatim>\<open>{**d, **other}\<close> store the entries of \<^verbatim>\<open>other\<close> one after the other, so the
  last write wins.
\<close>

definition dict_update :: "dict \<Rightarrow> dict \<Rightarrow> dict" where
  "dict_update d other = fold (\<lambda>(k, v). AList.update k v) other d"

text \<open>Reading one entry of a JSON object; \<^const>\<open>None\<close> on anything that is not an object.\<close>

fun json_get :: "json \<Rightarrow> string \<Rightarrow> json option" where
  "json_get (JObj d) k = map_of d k"
| "json_get _ k = None"

text \<open>An \<^verbatim>\<open>Optional[str]\<close> as a value: \<^verbatim>\<open>None\<close> or the string.\<close>

fun opt_str :: "string option \<Rightarrow> json" where
  "opt_str None = JNull"
| "opt_str (Some s) = JStr s"

text \<open>
  Python's truth test on an \<^verbatim>\<open>Optional[str]\<close> (\<^verbatim>\<open>if deep_link_url:\<close>): \<^verbatim>\<open>None\<close>
  and the empty string are both false.
\<close>

fun truthy :: "string option \<Rightarrow> bool" where
  "truthy None = False"
| "truthy (Some s) = (s \<noteq> [])"

section \<open>Failures\<close>

text \<open>
  The failures a call can end with. \<open>NotFoundException\<close> is the transport's
  not-found failure; it carries \<^verbatim>\<open>e.response["Error"]["Message"]\<close>. \<open>TransportError\<close>
  is any other failure of a transport call. \<open>ValidationError\<close> and \<open>NotSupported\<close>
  are raised by the adapters themselves.
\<close>

datatype error =
    NotFoundException string
  | TransportError string
  | ValidationError string
  | NotSupported

section \<open>The Pinpoint client\<close>

text \<open>
  \<^verbatim>\<open>self.pinpoint_client\<close> is the boto3 client, an external collaborator. Its three
  operations used here are parameters of the model: each takes the request and the
  state of the outside world and gives back the response or the failure raised,
  together with the new state of the world.
\<close>

record 'w pinpoint_transport =
  send_messages :: "string \<Rightarrow> json \<Rightarrow> 'w \<Rightarrow> (error + json) \<times> 'w"
  get_endpoint :: "string \<Rightarrow> string \<Rightarrow> 'w \<Rightarrow> (error + json) \<times> 'w"
  get_user_endpoints :: "string \<Rightarrow> string \<Rightarrow> 'w \<Rightarrow> (error + json) \<times> 'w"

subsection \<open>Message builders\<close>

text \<open>\<^verbatim>\<open>_prepare_custom_data\<close>: \<^verbatim>\<open>(custom_data or {}).copy()\<close>, then the two keys are stored.\<close>

definition prepare_custom_data :: "dict option \<Rightarrow> string option \<Rightarrow> string option \<Rightarrow> dict" where
  "prepare_custom_data custom_data deep_link_url image_url =
     (let data = (case custom_data of None \<Rightarrow> [] | Some d \<Rightarrow> d)
      in dict_update data
           [(''deeplink'', opt_str deep_link_url), (''image_url'', opt_str image_url)])"

text \<open>The local \<^verbatim>\<open>aps_payload\<close> of \<^verbatim>\<open>_build_apns_message\<close>.\<close>

definition aps_payload :: "string \<Rightarrow> string \<Rightarrow> string option \<Rightarrow> bool \<Rightarrow> dict" where
  "aps_payload title body image_url silent_push =
     (let aps0 = [(''sound'', JStr ''default'')];
          aps1 = (if silent_push
                  then AList.update ''content-available'' (JInt 1) aps0
                  else AList.update ''alert''
                         (JObj [(''title'', JStr title), (''body'', JStr body)]) aps0)
      in if truthy image_url
         then AList.update ''mutable-content'' (JInt 1) aps1
         else aps1)"

text \<open>The local \<^verbatim>\<open>payload_root = {"aps": aps_payload, **custom_data}\<close>.\<close>

definition payload_root :: "dict \<Rightarrow> dict \<Rightarrow> dict" where
  "payload_root aps custom_data = dict_update [(''aps'', JObj aps)] custom_data"

text \<open>
  The last step shared by the three builders: \<^verbatim>\<open>if deep_link_url: message["Url"] = deep_link_url\<close>.
\<close>

fun with_url :: "string option \<Rightarrow> dict \<Rightarrow> dict" where
  "with_url None message = message"
| "with_url (Some u) message = (if u \<noteq> [] then AList.update ''Url'' (JStr u) message else message)"

text \<open>
  \<^verbatim>\<open>_build_apns_message\<close>. \<open>dumps\<close> stands for \<^verbatim>\<open>json.dumps\<close>, a function of the
  standard library.
\<close>

definition build_apns_message ::
  "(json \<Rightarrow> string) \<Rightarrow> string \<Rightarrow> string \<Rightarrow> string \<Rightarrow> string option \<Rightarrow> string option \<Rightarrow> bool
     \<Rightarrow> dict \<Rightarrow> dict" where
  "build_apns_message dumps title body action deep_link_url image_url silent_push custom_data =
     with_url deep_link_url
       [(''Action'', JStr action),
        (''RawContent'',
           JStr (dumps (JObj (payload_root (aps_payload title body image_url silent_push)
                                custom_data))))]"

text \<open>The local \<^verbatim>\<open>gcm_payload\<close> of \<^verbatim>\<open>_build_gcm_message\<close>.\<close>

definition gcm_payload ::
  "string \<Rightarrow> string \<Rightarrow> string option \<Rightarrow> bool \<Rightarrow> dict \<Rightarrow> int option \<Rightarrow> string option \<Rightarrow> dict" where
  "gcm_payload title body image_url silent_push custom_data time_to_live priority =
     (let payload_data =
            dict_update (dict_update [] custom_data)
              [(''title'', JStr title), (''body'', JStr body)];
          g0 = [(''data'', JObj payload_data)];
          g1 = (if silent_push
                then AList.update ''content_available'' (JInt 1) g0
                else (let n0 = [(''title'', JStr title), (''body'', JStr body)];
                          notification =
                            (if truthy image_url
                             then AList.update ''image'' (opt_str image_url) n0
                             else n0)
                      in AList.update ''notification'' (JObj notification) g0));
          g2 = (if truthy priority
                then AList.update ''priority'' (opt_str priority) g1
                else g1)
      in case time_to_live of
           None \<Rightarrow> g2
         | Some t \<Rightarrow> AList.update ''time_to_live'' (JInt t) g2)"

definition build_gcm_message ::
  "(json \<Rightarrow> string) \<Rightarrow> string \<Rightarrow> string \<Rightarrow> string \<Rightarrow> string option \<Rightarrow> string option \<Rightarrow> bool
     \<Rightarrow> dict \<Rightarrow> int option \<Rightarrow> string option \<Rightarrow> dict" where
  "build_gcm_message dumps title body action deep_link_url image_url silent_push custom_data
       time_to_live priority =
     with_url deep_link_url
       [(''Action'', JStr action),
        (''RawContent'',
           JStr (dumps (JObj (gcm_payload title body image_url silent_push custom_data
                                time_to_live priority))))]"

definition build_default_message :: "string \<Rightarrow> string \<Rightarrow> string \<Rightarrow> string option \<Rightarrow> dict" where
  "build_default_message title body action deep_link_url =
     with_url deep_link_url
       [(''Action'', JStr action), (''Title'', JStr title), (''Body'', JStr body)]"

subsection \<open>Sending a push notification\<close>

text \<open>\<^verbatim>\<open>action = "DEEP_LINK" if deep_link_url else "OPEN_APP"\<close>.\<close>

definition push_action :: "string option \<Rightarrow> string" where
  "push_action deep_link_url = (if truthy deep_link_url then ''DEEP_LINK'' else ''OPEN_APP'')"

text \<open>The dictionary comprehension \<^verbatim>\<open>{endpoint_id: {} for endpoint_id in endpoint_ids}\<close>.\<close>

definition endpoints_of :: "string list \<Rightarrow> dict" where
  "endpoints_of endpoint_ids = fold (\<lambda>endpoint_id. AList.update endpoint_id (JObj [])) endpoint_ids []"

text \<open>The local \<^verbatim>\<open>message_request\<close> of \<^verbatim>\<open>send_pinpoint_push_notification\<close>.\<close>

definition message_request ::
  "(json \<Rightarrow> string) \<Rightarrow> string list \<Rightarrow> string \<Rightarrow> string \<Rightarrow> string option \<Rightarrow> string option
     \<Rightarrow> dict option \<Rightarrow> bool \<Rightarrow> int option \<Rightarrow> string option \<Rightarrow> json" where
  "message_request dumps endpoint_ids title body deep_link_url image_url custom_data silent_push
       time_to_live priority =
     (let action = push_action deep_link_url;
          processed_custom_data = prepare_custom_data custom_data deep_link_url image_url;
          apns_message =
            build_apns_message dumps title body action deep_link_url image_url silent_push
              processed_custom_data;
          gcm_message =
            build_gcm_message dumps title body action deep_link_url image_url silent_push
              processed_custom_data time_to_live priority;
          default_message = build_default_message title body action deep_link_url
      in JObj
           [(''Endpoints'', JObj (endpoints_of endpoint_ids)),
            (''MessageConfiguration'',
               JObj [(''APNSMessage'', JObj apns_message),
                     (''GCMMessage'', JObj gcm_message),
                     (''DefaultPushNotificationMessage'', JObj default_message)])])"

definition send_pinpoint_push_notification ::
  "'w pinpoint_transport \<Rightarrow> (json \<Rightarrow> string) \<Rightarrow> string \<Rightarrow> string list \<Rightarrow> string \<Rightarrow> string
     \<Rightarrow> string option \<Rightarrow> string option \<Rightarrow> dict option \<Rightarrow> bool \<Rightarrow> int option \<Rightarrow> string option
     \<Rightarrow> 'w \<Rightarrow> (error + json) \<times> 'w" where
  "send_pinpoint_push_notification pinpoint_client dumps application_id endpoint_ids title body
       deep_link_url image_url custom_data silent_push time_to_live priority w =
     send_messages pinpoint_client application_id
       (message_request dumps endpoint_ids title body deep_link_url image_url custom_data
          silent_push time_to_live priority) w"

subsection \<open>Endpoint lookups\<close>

text \<open>
  \<^verbatim>\<open>get_pinpoint_endpoint\<close> and \<^verbatim>\<open>get_pinpoint_user_endpoints\<close>: the transport call in a
  \<^verbatim>\<open>try\<close> whose only handler is for \<^verbatim>\<open>NotFoundException\<close>.
\<close>

definition get_pinpoint_endpoint ::
  "'w pinpoint_transport \<Rightarrow> string \<Rightarrow> string \<Rightarrow> 'w \<Rightarrow> (error + json) \<times> 'w" where
  "get_pinpoint_endpoint pinpoint_client application_id endpoint_id w =
     (case get_endpoint pinpoint_client application_id endpoint_id w of
        (Inl (NotFoundException m), w') \<Rightarrow> (Inr (JObj [(''error'', JStr m)]), w')
      | (r, w') \<Rightarrow> (r, w'))"

definition get_pinpoint_user_endpoints ::
  "'w pinpoint_transport \<Rightarrow> string \<Rightarrow> string \<Rightarrow> 'w \<Rightarrow> (error + json) \<times> 'w" where
  "get_pinpoint_user_endpoints pinpoint_client application_id user_id w =
     (case get_user_endpoints pinpoint_client application_id user_id w of
        (Inl (NotFoundException m), w') \<Rightarrow> (Inr (JObj [(''error'', JStr m)]), w')
      | (r, w') \<Rightarrow> (r, w'))"

subsection \<open>Reading the envelope\<close>

text \<open>
  The message of one channel in an assembled envelope:
  \<^verbatim>\<open>message_request["MessageConfiguration"][channel]\<close>, when both keys are there and the
  entry is a dictionary.
\<close>

definition channel_message :: "json \<Rightarrow> string \<Rightarrow> dict option" where
  "channel_message request channel =
     (case json_get request ''MessageConfiguration'' of
        None \<Rightarrow> None
      | Some configuration \<Rightarrow>
          (case json_get configuration channel of
             Some (JObj message) \<Rightarrow> Some message
           | _ \<Rightarrow> None))"

text \<open>The \<^verbatim>\<open>Action\<close> and \<^verbatim>\<open>Url\<close> entries of a channel message; \<^const>\<open>None\<close> for a key that is not there.\<close>

definition action_and_url :: "dict \<Rightarrow> json option \<times> json option" where
  "action_and_url message = (map_of message ''Action'', map_of message ''Url'')"

section \<open>The notifier factory\<close>


section \<open>The SMS-gateway adapter\<close>

text \<open>
  Modelled from the spec: the class \<^verbatim>\<open>TwilioNotifier\<close>
  (\<^verbatim>\<open>notihub/notifiers/twilio/notifier.py\<close>) is not part of the sources at hand; only its
  tests are. The adapter holds the account SID, the auth token, the optional origin
  phone number and its transport, whose one operation \<open>create_message\<close> takes the
  origin, the destination and the body and gives the message identifier.
\<close>

record 'w twilio_notifier =
  account_sid :: string
  auth_token :: string
  twilio_phone_number :: "string option"
  create_message :: "string \<Rightarrow> string \<Rightarrow> string \<Rightarrow> 'w \<Rightarrow> (error + string) \<times> 'w"


text \<open>
  Modelled from the spec: \<^verbatim>\<open>send_email_notification(...)\<close> and
  \<^verbatim>\<open>send_push_notification(...)\<close> of the SMS-gateway adapter "always fail with
  \<^verbatim>\<open>NotSupported\<close>": the adapter is SMS-only. The parameters are those of the notifier
  contract, the last one the extra keyword arguments.
\<close>

definition send_email_notification ::
  "'w twilio_notifier \<Rightarrow> string option \<Rightarrow> dict \<Rightarrow> string list \<Rightarrow> string \<Rightarrow> string
     \<Rightarrow> string list option \<Rightarrow> string list option \<Rightarrow> dict \<Rightarrow> 'w \<Rightarrow> (error + json) \<times> 'w" where
  "send_email_notification self subject email_data recipients sender template cc_emails
       bcc_emails kwargs w =
     (Inl NotSupported, w)"

definition send_push_notification ::
  "'w twilio_notifier \<Rightarrow> string \<Rightarrow> dict \<Rightarrow> 'w \<Rightarrow> (error + json) \<times> 'w" where
  "send_push_notification self message kwargs w = (Inl NotSupported, w)"

section \<open>A transport and a constructor for the examples\<close>

text \<open>
  A Pinpoint transport over a counter of the calls made: it knows the application
  \<^verbatim>\<open>app\<close>, the endpoint \<^verbatim>\<open>e1\<close> and the user \<^verbatim>\<open>u1\<close>, throttles the id \<^verbatim>\<open>busy\<close> and
  reports every other id as not found.
\<close>

definition example_pinpoint_client :: "nat pinpoint_transport" where
  "example_pinpoint_client =
     \<lparr>send_messages =
        (\<lambda>application_id request w.
           (if application_id = ''app'' then Inr (JObj [(''MessageResponse'', JObj [])])
            else Inl (NotFoundException ''Application not found''), Suc w)),
      get_endpoint =
        (\<lambda>application_id endpoint_id w.
           (if endpoint_id = ''e1'' then Inr (JObj [(''EndpointResponse'', JObj [])])
            else if endpoint_id = ''busy'' then Inl (TransportError ''TooManyRequestsException'')
            else Inl (NotFoundException ''Resource not found''), Suc w)),
      get_user_endpoints =
        (\<lambda>application_id user_id w.
           (if user_id = ''u1'' then Inr (JObj [(''EndpointsResponse'', JObj [])])
            else if user_id = ''busy'' then Inl (TransportError ''TooManyRequestsException'')
            else Inl (NotFoundException ''Resource not found''), Suc w))\<rparr>"



section \<open>Facts about dictionaries\<close>

lemma dict_update_Nil: "dict_update d [] = d"
  by (simp add: dict_update_def)

lemma dict_update_Cons: "dict_update d ((k, v) # other) = dict_update (AList.update k v d) other"
  by (simp add: dict_update_def)

lemma map_of_dict_update: "map_of (dict_update d other) = map_of d ++ map_of (rev other)"
proof (induction other arbitrary: d)
  case Nil
  then show ?case by (simp add: dict_update_Nil)
next
  case (Cons p ps)
  obtain k v where p: "p = (k, v)" by (cases p)
  have "map_of (dict_update (AList.update k v d) ps)
          = map_of (AList.update k v d) ++ map_of (rev ps)"
    by (rule Cons.IH)
  then show ?case
    by (simp add: p dict_update_Cons AList.update_conv' map_add_upd_left)
qed

lemma distinct_dict_update:
  "distinct (map fst d) \<Longrightarrow> distinct (map fst (dict_update d other))"
proof (induction other arbitrary: d)
  case Nil
  then show ?case by (simp add: dict_update_Nil)
next
  case (Cons p ps)
  obtain k v where p: "p = (k, v)" by (cases p)
  from Cons.prems have "distinct (map fst (AList.update k v d))"
    by (rule AList.distinct_update)
  then show ?case
    by (simp add: p dict_update_Cons Cons.IH)
qed

lemma update_fresh: "k \<notin> fst ` set d \<Longrightarrow> AList.update k v d = d @ [(k, v)]"
  by (induction d) auto

lemma dict_update_fresh_head:
  "k \<notin> fst ` set other \<Longrightarrow> dict_update ((k, x) # d) other = (k, x) # dict_update d other"
proof (induction other arbitrary: d)
  case Nil
  then show ?case by (simp add: dict_update_Nil)
next
  case (Cons p ps)
  obtain k' v' where p: "p = (k', v')" by (cases p)
  from Cons.prems p have ne: "k \<noteq> k'" and fresh: "k \<notin> fst ` set ps" by auto
  from ne have "AList.update k' v' ((k, x) # d) = (k, x) # AList.update k' v' d" by simp
  with Cons.IH [OF fresh] show ?case
    by (simp add: p dict_update_Cons)
qed

lemma dict_update_fresh:
  "distinct (map fst other) \<Longrightarrow> fst ` set d \<inter> fst ` set other = {} \<Longrightarrow> dict_update d other = d @ other"
proof (induction other arbitrary: d)
  case Nil
  then show ?case by (simp add: dict_update_Nil)
next
  case (Cons p ps)
  obtain k v where p: "p = (k, v)" by (cases p)
  from Cons.prems p have k: "k \<notin> fst ` set d" and kps: "k \<notin> fst ` set ps"
    and d: "distinct (map fst ps)" and disj: "fst ` set d \<inter> fst ` set ps = {}"
    by auto
  from k have u: "AList.update k v d = d @ [(k, v)]" by (rule update_fresh)
  from kps disj have "fst ` set (d @ [(k, v)]) \<inter> fst ` set ps = {}" by auto
  from Cons.IH [OF d this] show ?case
    by (simp add: p dict_update_Cons u)
qed

lemma dict_update_overwrite_head:
  "distinct (map fst other) \<Longrightarrow> map_of other k = Some v \<Longrightarrow>
     dict_update ((k, a) # d) other = (k, v) # dict_update d (AList.delete k other)"
proof (induction other arbitrary: d)
  case Nil
  then show ?case by simp
next
  case (Cons p ps)
  obtain k' v' where p: "p = (k', v')" by (cases p)
  show ?case
  proof (cases "k' = k")
    case True
    with Cons.prems p have v: "v' = v" and fresh: "k \<notin> fst ` set ps" by auto
    from fresh have "AList.delete k ps = ps" by simp
    with dict_update_fresh_head [OF fresh, of v d] show ?thesis
      by (simp add: p True v dict_update_Cons)
  next
    case False
    with Cons.prems p have d: "distinct (map fst ps)" and m: "map_of ps k = Some v" by auto
    from False have "AList.update k' v' ((k, a) # d) = (k, a) # AList.update k' v' d" by simp
    with Cons.IH [OF d m, of "AList.update k' v' d"] False show ?thesis
      by (simp add: p dict_update_Cons)
  qed
qed

section \<open>Enrichment of the custom data\<close>

lemma map_of_prepare_custom_data:
  "map_of (prepare_custom_data custom_data deep_link_url image_url) =
     (map_of (case custom_data of None \<Rightarrow> [] | Some d \<Rightarrow> d))
       (''deeplink'' \<mapsto> opt_str deep_link_url, ''image_url'' \<mapsto> opt_str image_url)"
  by (simp add: prepare_custom_data_def dict_update_def AList.update_conv')

lemma distinct_prepare_custom_data:
  "distinct (map fst d) \<Longrightarrow> distinct (map fst (prepare_custom_data (Some d) deep_link_url image_url))"
  by (simp add: prepare_custom_data_def distinct_dict_update)

text \<open>
  Claim C3. For every caller-supplied \<^verbatim>\<open>custom_data\<close> (also \<^verbatim>\<open>None\<close>) and every pair of
  optional deep-link and image URLs, the mapping \<^verbatim>\<open>_prepare_custom_data\<close> returns has
  the keys \<^verbatim>\<open>deeplink\<close> and \<^verbatim>\<open>image_url\<close>, each holding the URL given, or null when
  that URL is \<^verbatim>\<open>None\<close>. Enriching the result again with the same URLs gives the very
  same dictionary (entries and order), and enriching it with other URLs gives the same
  mapping as enriching the caller's data with those: the last write wins on the two
  keys.
\<close>

theorem prepare_custom_data_enriches:
  "map_of (prepare_custom_data custom_data deep_link_url image_url) ''deeplink''
     = Some (case deep_link_url of None \<Rightarrow> JNull | Some u \<Rightarrow> JStr u)
   \<and> map_of (prepare_custom_data custom_data deep_link_url image_url) ''image_url''
     = Some (case image_url of None \<Rightarrow> JNull | Some u \<Rightarrow> JStr u)
   \<and> prepare_custom_data
         (Some (prepare_custom_data custom_data deep_link_url image_url)) deep_link_url image_url
     = prepare_custom_data custom_data deep_link_url image_url
   \<and> map_of (prepare_custom_data
         (Some (prepare_custom_data custom_data deep_link_url image_url)) deep_link_url' image_url')
     = map_of (prepare_custom_data custom_data deep_link_url' image_url')"
proof -
  let ?e = "prepare_custom_data custom_data deep_link_url image_url"
  have dl: "map_of ?e ''deeplink'' = Some (opt_str deep_link_url)"
    by (simp add: map_of_prepare_custom_data)
  have im: "map_of ?e ''image_url'' = Some (opt_str image_url)"
    by (simp add: map_of_prepare_custom_data)
  have u1: "AList.update ''deeplink'' (opt_str deep_link_url) ?e = ?e"
    using dl by (rule AList.update_triv)
  have u2: "AList.update ''image_url'' (opt_str image_url) ?e = ?e"
    using im by (rule AList.update_triv)
  have idem: "prepare_custom_data (Some ?e) deep_link_url image_url = ?e"
    by (simp add: prepare_custom_data_def [of "Some ?e"] dict_update_def u1 u2)
  have lww: "map_of (prepare_custom_data (Some ?e) deep_link_url' image_url')
     = map_of (prepare_custom_data custom_data deep_link_url' image_url')"
    by (simp add: map_of_prepare_custom_data [of "Some ?e"] map_of_prepare_custom_data [of custom_data]  )
  from dl im idem lww show ?thesis
    by (cases deep_link_url; cases image_url) simp_all
qed

section \<open>The action and the deep link\<close>

lemma channel_message_apns:
  "channel_message
     (message_request dumps endpoint_ids title body deep_link_url image_url custom_data
        silent_push time_to_live priority) ''APNSMessage''
   = Some (build_apns_message dumps title body (push_action deep_link_url) deep_link_url
             image_url silent_push (prepare_custom_data custom_data deep_link_url image_url))"
  by (simp add: message_request_def channel_message_def Let_def)

lemma channel_message_gcm:
  "channel_message
     (message_request dumps endpoint_ids title body deep_link_url image_url custom_data
        silent_push time_to_live priority) ''GCMMessage''
   = Some (build_gcm_message dumps title body (push_action deep_link_url) deep_link_url
             image_url silent_push (prepare_custom_data custom_data deep_link_url image_url)
             time_to_live priority)"
  by (simp add: message_request_def channel_message_def Let_def)

lemma channel_message_default:
  "channel_message
     (message_request dumps endpoint_ids title body deep_link_url image_url custom_data
        silent_push time_to_live priority) ''DefaultPushNotificationMessage''
   = Some (build_default_message title body (push_action deep_link_url) deep_link_url)"
  by (simp add: message_request_def channel_message_def Let_def)

lemma action_and_url_with_url:
  assumes "map_of message ''Action'' = Some a" and "map_of message ''Url'' = None"
  shows "action_and_url (with_url deep_link_url message)
           = (Some a, if truthy deep_link_url then Some (opt_str deep_link_url) else None)"
  using assms by (cases deep_link_url) (simp_all add: action_and_url_def AList.update_conv')

lemma action_and_url_apns:
  "action_and_url (build_apns_message dumps title body action deep_link_url image_url
                     silent_push custom_data)
     = (Some (JStr action), if truthy deep_link_url then Some (opt_str deep_link_url) else None)"
  unfolding build_apns_message_def by (rule action_and_url_with_url) simp_all

lemma action_and_url_gcm:
  "action_and_url (build_gcm_message dumps title body action deep_link_url image_url
                     silent_push custom_data time_to_live priority)
     = (Some (JStr action), if truthy deep_link_url then Some (opt_str deep_link_url) else None)"
  unfolding build_gcm_message_def by (rule action_and_url_with_url) simp_all

lemma action_and_url_default:
  "action_and_url (build_default_message title body action deep_link_url)
     = (Some (JStr action), if truthy deep_link_url then Some (opt_str deep_link_url) else None)"
  unfolding build_default_message_def by (rule action_and_url_with_url) simp_all

text \<open>
  Claim C1, as the code has it. The three channel messages of the envelope carry the same
  \<^verbatim>\<open>Action\<close> and the same \<^verbatim>\<open>Url\<close>: with a deep-link URL that is present and not the
  empty string the action is \<^verbatim>\<open>DEEP_LINK\<close> and \<^verbatim>\<open>Url\<close> is that URL; with no deep-link
  URL, or with the empty string, the action is \<^verbatim>\<open>OPEN_APP\<close> and no message has a
  \<^verbatim>\<open>Url\<close> key. The code tests \<^verbatim>\<open>if deep_link_url\<close>, which the empty string fails.
\<close>

theorem deep_link_action_and_url:
  fixes deep_link_url :: "string option"
  defines "expected \<equiv>
     (case deep_link_url of
        None \<Rightarrow> (Some (JStr ''OPEN_APP''), None)
      | Some u \<Rightarrow>
          if u = [] then (Some (JStr ''OPEN_APP''), None)
          else (Some (JStr ''DEEP_LINK''), Some (JStr u)))"
  shows
    "map_option action_and_url
       (channel_message
          (message_request dumps endpoint_ids title body deep_link_url image_url custom_data
             silent_push time_to_live priority) ''APNSMessage'') = Some expected
     \<and> map_option action_and_url
       (channel_message
          (message_request dumps endpoint_ids title body deep_link_url image_url custom_data
             silent_push time_to_live priority) ''GCMMessage'') = Some expected
     \<and> map_option action_and_url
       (channel_message
          (message_request dumps endpoint_ids title body deep_link_url image_url custom_data
             silent_push time_to_live priority) ''DefaultPushNotificationMessage'') = Some expected"
proof -
  have e: "(Some (JStr (push_action deep_link_url)),
            if truthy deep_link_url then Some (opt_str deep_link_url) else None) = expected"
    by (cases deep_link_url) (simp_all add: expected_def push_action_def)
  show ?thesis
    by (simp add: channel_message_apns channel_message_gcm channel_message_default
          action_and_url_apns action_and_url_gcm action_and_url_default e)
qed

theorem deep_link_action_and_url_witness:
  "map_option action_and_url
     (channel_message
        (message_request (\<lambda>j. []) [''e1'', ''e2''] ''Hi'' ''there'' (Some ''app://home'') None None
           False None None) ''APNSMessage'')
     = Some (Some (JStr ''DEEP_LINK''), Some (JStr ''app://home''))"
  using deep_link_action_and_url [of "\<lambda>j. []" "[''e1'', ''e2'']" "''Hi''" "''there''"
          "Some ''app://home''" None None False None None]
  by simp

text \<open>
  A deep-link URL that is present but empty: in all three messages of the envelope the
  action is \<^verbatim>\<open>OPEN_APP\<close> and there is no \<^verbatim>\<open>Url\<close> key.
\<close>

theorem empty_deep_link_counterexample:
  "(Some [] :: string option) \<noteq> None
   \<and> push_action (Some []) \<noteq> ''DEEP_LINK''
   \<and> map_option action_and_url
       (channel_message
          (message_request (\<lambda>j. []) [''e1''] ''Hi'' ''there'' (Some []) None None False None None)
          ''APNSMessage'') = Some (Some (JStr ''OPEN_APP''), None)
   \<and> map_option action_and_url
       (channel_message
          (message_request (\<lambda>j. []) [''e1''] ''Hi'' ''there'' (Some []) None None False None None)
          ''GCMMessage'') = Some (Some (JStr ''OPEN_APP''), None)
   \<and> map_option action_and_url
       (channel_message
          (message_request (\<lambda>j. []) [''e1''] ''Hi'' ''there'' (Some []) None None False None None)
          ''DefaultPushNotificationMessage'') = Some (Some (JStr ''OPEN_APP''), None)"
  by (simp add: push_action_def channel_message_apns channel_message_gcm channel_message_default
        action_and_url_apns action_and_url_gcm action_and_url_default)

section \<open>Silent and visible pushes\<close>











section \<open>Pushes with an image\<close>




section \<open>The endpoints of the envelope\<close>

lemma keys_fold_endpoints:
  "fst ` set (fold (\<lambda>endpoint_id. AList.update endpoint_id v) ids acc) = fst ` set acc \<union> set ids"
  by (induction ids arbitrary: acc) (simp_all add: AList.dom_update Un_assoc)

lemma distinct_fold_endpoints:
  "distinct (map fst acc) \<Longrightarrow>
     distinct (map fst (fold (\<lambda>endpoint_id. AList.update endpoint_id v) ids acc))"
  by (induction ids arbitrary: acc) (simp_all add: AList.distinct_update)

lemma set_update_subset: "set (AList.update k v al) \<subseteq> insert (k, v) (set al)"
  by (induction al) auto

lemma values_fold_endpoints:
  "snd ` set acc \<subseteq> {v} \<Longrightarrow>
     snd ` set (fold (\<lambda>endpoint_id. AList.update endpoint_id v) ids acc) \<subseteq> {v}"
proof (induction ids arbitrary: acc)
  case Nil
  then show ?case by simp
next
  case (Cons i ids)
  have "snd ` set (AList.update i v acc) \<subseteq> snd ` insert (i, v) (set acc)"
    by (rule image_mono) (rule set_update_subset)
  also from Cons.prems have "\<dots> \<subseteq> {v}" by simp
  finally have "snd ` set (AList.update i v acc) \<subseteq> {v}" .
  then show ?case by (simp add: Cons.IH)
qed

lemma fold_endpoints_distinct:
  "distinct ids \<Longrightarrow> fst ` set acc \<inter> set ids = {} \<Longrightarrow>
     fold (\<lambda>endpoint_id. AList.update endpoint_id v) ids acc = acc @ map (\<lambda>k. (k, v)) ids"
proof (induction ids arbitrary: acc)
  case Nil
  then show ?case by simp
next
  case (Cons i ids)
  from Cons.prems have fresh: "i \<notin> fst ` set acc" by auto
  then have u: "AList.update i v acc = acc @ [(i, v)]" by (rule update_fresh)
  from Cons.prems have "distinct ids" and "fst ` set (acc @ [(i, v)]) \<inter> set ids = {}" by auto
  from Cons.IH [OF this] show ?case by (simp add: u)
qed

lemma endpoints_of_keys: "fst ` set (endpoints_of endpoint_ids) = set endpoint_ids"
  using keys_fold_endpoints [of "JObj []" endpoint_ids "[]"] by (simp add: endpoints_of_def)

lemma endpoints_of_distinct: "distinct (map fst (endpoints_of endpoint_ids))"
  unfolding endpoints_of_def by (rule distinct_fold_endpoints) simp

lemma endpoints_of_length: "length (endpoints_of endpoint_ids) = card (set endpoint_ids)"
proof -
  have "length (endpoints_of endpoint_ids) = length (map fst (endpoints_of endpoint_ids))" by simp
  also have "\<dots> = card (set (map fst (endpoints_of endpoint_ids)))"
    using endpoints_of_distinct by (rule distinct_card [symmetric])
  finally show ?thesis by (simp add: endpoints_of_keys)
qed

lemma endpoints_of_values:
  "map snd (endpoints_of endpoint_ids) = replicate (card (set endpoint_ids)) (JObj [])"
proof -
  have "snd ` set (endpoints_of endpoint_ids) \<subseteq> {JObj []}"
    unfolding endpoints_of_def by (rule values_fold_endpoints) simp
  then have "\<forall>x \<in> set (map snd (endpoints_of endpoint_ids)). x = JObj []" by auto
  then have "map snd (endpoints_of endpoint_ids)
               = replicate (length (map snd (endpoints_of endpoint_ids))) (JObj [])"
    by (simp only: replicate_length_same)
  then show ?thesis by (simp add: endpoints_of_length)
qed

text \<open>
  Claim C5, as the code has it. The \<^verbatim>\<open>Endpoints\<close> entry of the envelope is the dictionary
  built from the list of endpoint ids: its keys are exactly the ids of the list, each
  once, so it has as many keys as the list has different ids; every key maps to the empty
  dictionary. When the N ids of the list are pairwise different (the empty list
  included) the mapping has exactly N keys, in the order of the list.
\<close>

theorem endpoints_one_key_per_distinct_id:
  "json_get (message_request dumps endpoint_ids title body deep_link_url image_url custom_data
               silent_push time_to_live priority) ''Endpoints''
     = Some (JObj (endpoints_of endpoint_ids))
   \<and> set (map fst (endpoints_of endpoint_ids)) = set endpoint_ids
   \<and> distinct (map fst (endpoints_of endpoint_ids))
   \<and> length (endpoints_of endpoint_ids) = card (set endpoint_ids)
   \<and> map snd (endpoints_of endpoint_ids) = replicate (card (set endpoint_ids)) (JObj [])
   \<and> (distinct endpoint_ids \<longrightarrow>
        endpoints_of endpoint_ids = map (\<lambda>endpoint_id. (endpoint_id, JObj [])) endpoint_ids
        \<and> length (endpoints_of endpoint_ids) = length endpoint_ids)"
proof -
  have env: "json_get (message_request dumps endpoint_ids title body deep_link_url image_url
               custom_data silent_push time_to_live priority) ''Endpoints''
             = Some (JObj (endpoints_of endpoint_ids))"
    by (simp add: message_request_def Let_def)
  have dist: "endpoints_of endpoint_ids = map (\<lambda>endpoint_id. (endpoint_id, JObj [])) endpoint_ids"
    if "distinct endpoint_ids"
    using fold_endpoints_distinct [OF that, of "[]" "JObj []"] by (simp add: endpoints_of_def)
  from env dist show ?thesis
    by (simp add: endpoints_of_keys endpoints_of_distinct endpoints_of_length endpoints_of_values)
qed

theorem endpoints_one_key_per_distinct_id_witness:
  "distinct [''e1'', ''e2'']
   \<and> json_get (message_request (\<lambda>j. []) [''e1'', ''e2''] ''Hi'' ''there'' None
                 (Some ''http://x/y.png'') None False None None) ''Endpoints''
       = Some (JObj [(''e1'', JObj []), (''e2'', JObj [])])
   \<and> json_get (message_request (\<lambda>j. []) [] ''Hi'' ''there'' None
                 (Some ''http://x/y.png'') None False None None) ''Endpoints''
       = Some (JObj [])"
  using endpoints_one_key_per_distinct_id [of "\<lambda>j. []" "[''e1'', ''e2'']" "''Hi''" "''there''" None
          "Some ''http://x/y.png''" None False None None]
    endpoints_one_key_per_distinct_id [of "\<lambda>j. []" "[]" "''Hi''" "''there''" None
          "Some ''http://x/y.png''" None False None None]
  by simp

text \<open>A list of two endpoint ids that are the same id gives one key, not two.\<close>

theorem repeated_endpoint_id_counterexample:
  "length [''e1'', ''e1''] = 2
   \<and> json_get (message_request (\<lambda>j. []) [''e1'', ''e1''] ''Hi'' ''there'' None None None False
                 None None) ''Endpoints''
       = Some (JObj [(''e1'', JObj [])])
   \<and> length (endpoints_of [''e1'', ''e1'']) \<noteq> length [''e1'', ''e1'']"
  by (simp add: message_request_def endpoints_of_def Let_def)

section \<open>Not-found failures of the transport\<close>

text \<open>
  Claim C6. \<^verbatim>\<open>get_pinpoint_endpoint\<close> and \<^verbatim>\<open>get_pinpoint_user_endpoints\<close> turn the
  transport's \<^verbatim>\<open>NotFoundException\<close> into the result \<^verbatim>\<open>{"error": message}\<close> with the
  transport's message; every other failure of the transport comes back unchanged, and so
  does a successful response. \<^verbatim>\<open>send_pinpoint_push_notification\<close>, the other operation of
  the client, hands every failure of the transport to its caller, a
  \<^verbatim>\<open>NotFoundException\<close> included.
\<close>

theorem not_found_only_caught_by_lookups:
  "(get_endpoint pinpoint_client application_id endpoint_id w = (Inl (NotFoundException m), w')
      \<longrightarrow> get_pinpoint_endpoint pinpoint_client application_id endpoint_id w
            = (Inr (JObj [(''error'', JStr m)]), w'))
   \<and> (get_endpoint pinpoint_client application_id endpoint_id w = (Inl e, w')
        \<and> (\<forall>m'. e \<noteq> NotFoundException m')
      \<longrightarrow> get_pinpoint_endpoint pinpoint_client application_id endpoint_id w = (Inl e, w'))
   \<and> (get_endpoint pinpoint_client application_id endpoint_id w = (Inr r, w')
      \<longrightarrow> get_pinpoint_endpoint pinpoint_client application_id endpoint_id w = (Inr r, w'))
   \<and> (get_user_endpoints pinpoint_client application_id user_id w
          = (Inl (NotFoundException m), w')
      \<longrightarrow> get_pinpoint_user_endpoints pinpoint_client application_id user_id w
            = (Inr (JObj [(''error'', JStr m)]), w'))
   \<and> (get_user_endpoints pinpoint_client application_id user_id w = (Inl e, w')
        \<and> (\<forall>m'. e \<noteq> NotFoundException m')
      \<longrightarrow> get_pinpoint_user_endpoints pinpoint_client application_id user_id w = (Inl e, w'))
   \<and> (get_user_endpoints pinpoint_client application_id user_id w = (Inr r, w')
      \<longrightarrow> get_pinpoint_user_endpoints pinpoint_client application_id user_id w = (Inr r, w'))
   \<and> (send_messages pinpoint_client application_id
          (message_request dumps endpoint_ids title body deep_link_url image_url custom_data
             silent_push time_to_live priority) w = (Inl f, w')
      \<longrightarrow> send_pinpoint_push_notification pinpoint_client dumps application_id endpoint_ids
            title body deep_link_url image_url custom_data silent_push time_to_live priority w
            = (Inl f, w'))"
proof -
  have other: "(case e of NotFoundException m' \<Rightarrow> g m' | _ \<Rightarrow> h) = h"
    if "\<forall>m'. e \<noteq> NotFoundException m'" for g :: "string \<Rightarrow> 'b" and h
    using that by (cases e) simp_all
  show ?thesis
    by (auto simp: get_pinpoint_endpoint_def get_pinpoint_user_endpoints_def
          send_pinpoint_push_notification_def other split: error.splits)
qed


theorem not_found_only_caught_by_lookups_witness:
  "get_pinpoint_endpoint example_pinpoint_client ''app'' ''gone'' 0
     = (Inr (JObj [(''error'', JStr ''Resource not found'')]), 1)
   \<and> get_pinpoint_endpoint example_pinpoint_client ''app'' ''busy'' 0
     = (Inl (TransportError ''TooManyRequestsException''), 1)
   \<and> get_pinpoint_endpoint example_pinpoint_client ''app'' ''e1'' 0
     = (Inr (JObj [(''EndpointResponse'', JObj [])]), 1)
   \<and> get_pinpoint_user_endpoints example_pinpoint_client ''app'' ''nobody'' 0
     = (Inr (JObj [(''error'', JStr ''Resource not found'')]), 1)
   \<and> get_pinpoint_user_endpoints example_pinpoint_client ''app'' ''busy'' 0
     = (Inl (TransportError ''TooManyRequestsException''), 1)
   \<and> get_pinpoint_user_endpoints example_pinpoint_client ''app'' ''u1'' 0
     = (Inr (JObj [(''EndpointsResponse'', JObj [])]), 1)
   \<and> send_pinpoint_push_notification example_pinpoint_client (\<lambda>j. []) ''no-such-app'' [''e1'']
        ''Hi'' ''there'' None None None False None None 0
     = (Inl (NotFoundException ''Application not found''), 1)"
  using
    not_found_only_caught_by_lookups
      [where pinpoint_client = example_pinpoint_client and application_id = "''app''"
         and endpoint_id = "''gone''" and user_id = "''nobody''" and w = 0 and w' = 1
         and m = "''Resource not found''"]
    not_found_only_caught_by_lookups
      [where pinpoint_client = example_pinpoint_client and application_id = "''app''"
         and endpoint_id = "''busy''" and user_id = "''busy''" and w = 0 and w' = 1
         and e = "TransportError ''TooManyRequestsException''"]
    not_found_only_caught_by_lookups
      [where pinpoint_client = example_pinpoint_client and application_id = "''app''"
         and endpoint_id = "''e1''" and w = 0 and w' = 1
         and r = "JObj [(''EndpointResponse'', JObj [])]"]
    not_found_only_caught_by_lookups
      [where pinpoint_client = example_pinpoint_client and application_id = "''app''"
         and user_id = "''u1''" and w = 0 and w' = 1
         and r = "JObj [(''EndpointsResponse'', JObj [])]"]
    not_found_only_caught_by_lookups
      [where pinpoint_client = example_pinpoint_client and application_id = "''no-such-app''"
         and dumps = "\<lambda>j. []" and endpoint_ids = "[''e1'']" and title = "''Hi''"
         and body = "''there''" and deep_link_url = None and image_url = None
         and custom_data = None and silent_push = False and time_to_live = None
         and priority = None and w = 0 and w' = 1
         and f = "NotFoundException ''Application not found''"]
  by (simp add: example_pinpoint_client_def)

section \<open>Custom data at the root of the APNS payload\<close>

lemma map_of_rev_distinct: "distinct (map fst al) \<Longrightarrow> map_of (rev al) = map_of al"
proof (induction al)
  case Nil
  then show ?case by simp
next
  case (Cons p ps)
  obtain k v where p: "p = (k, v)" by (cases p)
  from Cons.prems p have fresh: "k \<notin> fst ` set ps" and d: "distinct (map fst ps)" by auto
  from fresh have "map_of ps k = None" by (simp add: map_of_eq_None_iff)
  then have "[k \<mapsto> v] ++ map_of ps = (map_of ps)(k \<mapsto> v)"
    by (auto simp: map_add_def fun_eq_iff split: option.split)
  with Cons.IH [OF d] show ?case by (simp add: p)
qed

lemma payload_root_aps_overwritten:
  assumes "distinct (map fst custom_data)" and "map_of custom_data ''aps'' = Some v"
  shows "payload_root aps custom_data = (''aps'', v) # AList.delete ''aps'' custom_data"
proof -
  have d: "distinct (map fst (AList.delete ''aps'' custom_data))"
    using assms(1) by (rule AList.distinct_delete)
  have "dict_update [] (AList.delete ''aps'' custom_data) = [] @ AList.delete ''aps'' custom_data"
    using d by (rule dict_update_fresh) simp
  with dict_update_overwrite_head [OF assms, of "JObj aps" "[]"] show ?thesis
    by (simp add: payload_root_def)
qed

text \<open>
  Claim C10. The enriched custom data is merged into \<^verbatim>\<open>payload_root\<close> after the
  \<^verbatim>\<open>aps\<close> entry and the last write wins. So for every push request whose
  \<^verbatim>\<open>custom_data\<close> has a key \<^verbatim>\<open>aps\<close>, the payload root is the caller's \<^verbatim>\<open>aps\<close> value
  followed by the other entries of the enriched custom data: the \<^verbatim>\<open>aps_payload\<close> the
  builder made (sound, alert, content-available, mutable-content) is nowhere in the
  \<^verbatim>\<open>RawContent\<close> of the APNS message of the envelope.
\<close>

theorem custom_data_aps_replaces_aps_payload:
  fixes deep_link_url image_url :: "string option"
  assumes "distinct (map fst custom_data)" and "map_of custom_data ''aps'' = Some v"
  defines "enriched \<equiv> prepare_custom_data (Some custom_data) deep_link_url image_url"
  shows "map_of (payload_root (aps_payload title body image_url silent_push) enriched)
           = [''aps'' \<mapsto> JObj (aps_payload title body image_url silent_push)] ++ map_of enriched
         \<and> payload_root (aps_payload title body image_url silent_push) enriched
           = (''aps'', v) # AList.delete ''aps'' enriched
         \<and> channel_message
             (message_request dumps endpoint_ids title body deep_link_url image_url
                (Some custom_data) silent_push time_to_live priority) ''APNSMessage''
           = Some (with_url deep_link_url
                     [(''Action'', JStr (push_action deep_link_url)),
                      (''RawContent'',
                         JStr (dumps (JObj ((''aps'', v) # AList.delete ''aps'' enriched))))])"
proof -
  have d: "distinct (map fst enriched)"
    unfolding enriched_def using assms(1) by (rule distinct_prepare_custom_data)
  have m: "map_of enriched ''aps'' = Some v"
    using assms(2) by (simp add: enriched_def map_of_prepare_custom_data)
  have merge: "map_of (payload_root (aps_payload title body image_url silent_push) enriched)
           = [''aps'' \<mapsto> JObj (aps_payload title body image_url silent_push)] ++ map_of enriched"
    by (simp add: payload_root_def map_of_dict_update map_of_rev_distinct [OF d])
  have root: "payload_root (aps_payload title body image_url silent_push) enriched
                = (''aps'', v) # AList.delete ''aps'' enriched"
    using d m by (rule payload_root_aps_overwritten)
  from merge root show ?thesis
    by (simp add: channel_message_apns build_apns_message_def enriched_def [symmetric])
qed

theorem custom_data_aps_replaces_aps_payload_witness:
  "distinct (map fst [(''aps'', JStr ''mine''), (''k'', JInt 1)])
   \<and> map_of [(''aps'', JStr ''mine''), (''k'', JInt 1)] ''aps'' = Some (JStr ''mine'')
   \<and> payload_root (aps_payload ''Hi'' ''there'' (Some ''http://x/y.png'') False)
     (prepare_custom_data (Some [(''aps'', JStr ''mine''), (''k'', JInt 1)]) None
        (Some ''http://x/y.png''))
   = [(''aps'', JStr ''mine''), (''k'', JInt 1), (''deeplink'', JNull),
      (''image_url'', JStr ''http://x/y.png'')]"
  using custom_data_aps_replaces_aps_payload
          [where custom_data = "[(''aps'', JStr ''mine''), (''k'', JInt 1)]"
             and v = "JStr ''mine''" and title = "''Hi''" and body = "''there''"
             and image_url = "Some ''http://x/y.png''" and silent_push = False
             and deep_link_url = None and dumps = "\<lambda>j. []" and endpoint_ids = "[]"
             and time_to_live = None and priority = None]
  by (simp add: prepare_custom_data_def dict_update_def)

section \<open>The factory passes the credentials on\<close>




section \<open>The SMS-gateway adapter serves SMS only\<close>

text \<open>
  Claim C7. On the SMS-gateway adapter \<^verbatim>\<open>send_email_notification\<close> and
  \<^verbatim>\<open>send_push_notification\<close> fail with \<^verbatim>\<open>NotSupported\<close> for every adapter and every
  combination of arguments, and the state of the world is the one before the call: the
  transport is not called.
\<close>

theorem sms_gateway_email_and_push_not_supported:
  "send_email_notification self subject email_data recipients sender template cc_emails
      bcc_emails kwargs w = (Inl NotSupported, w)
   \<and> send_push_notification self message kwargs' w = (Inl NotSupported, w)"
  by (simp add: send_email_notification_def send_push_notification_def)




end
